theory Spec2Isabelle
  imports Main
begin

section \<open>The ONNX Loop importer (onnx_import/src/op/loop.cpp)\<close>

text \<open>
  The source file holds two functions: \<open>is_termination_condition_always_true\<close> and
  \<open>set_1::loop\<close>. Both work on the importer's graph: nodes, their output values, the
  ONNX node being imported with its \<open>body\<close> subgraph, and the \<open>Loop\<close> operator that is
  built. The classes behind these come from headers outside the file; they are modelled
  here by the data the two functions read and write.
\<close>

subsection \<open>Graph data\<close>

datatype element_type = boolean | i32 | i64 | f32 | dynamic

text \<open>
  A partial shape: \<open>None\<close> is a dynamic rank, \<open>Some ds\<close> a known rank whose dimensions
  are each known (\<open>Some n\<close>) or dynamic (\<open>None\<close>).
\<close>

type_synonym dimension = "nat option"
type_synonym partial_shape = "dimension list option"

definition is_static :: "partial_shape \<Rightarrow> bool" where
  "is_static ps = (case ps of None \<Rightarrow> False | Some ds \<Rightarrow> list_all (\<lambda>d. d \<noteq> None) ds)"

definition to_shape :: "partial_shape \<Rightarrow> nat list" where
  "to_shape ps = (case ps of None \<Rightarrow> [] | Some ds \<Rightarrow> map (\<lambda>d. case d of None \<Rightarrow> 0 | Some n \<Rightarrow> n) ds)"

definition is_scalar :: "nat list \<Rightarrow> bool" where
  "is_scalar shape = (length shape = 0)"

datatype parameter = Param string element_type partial_shape

text \<open>
  A node of the graph. A constant carries its element type, its shape and its elements,
  each element by its integer value (\<open>false\<close> is 0, \<open>true\<close> is 1). Every operator node
  other than a constant carries the partial shape that the graph assigned to its output.
  Values are identified with the node that produces them.
\<close>

datatype node =
    NullNode
  | Constant element_type "nat list" "int list"
  | Parameter parameter
  | LogicalOr node node partial_shape
  | Unsqueeze node node partial_shape
  | Op string "node list" element_type partial_shape

fun is_null :: "node \<Rightarrow> bool" where
  "is_null NullNode = True"
| "is_null _ = False"

fun is_constant :: "node \<Rightarrow> bool" where
  "is_constant (Constant t sh vs) = True"
| "is_constant _ = False"

fun get_element_type :: "node \<Rightarrow> element_type" where
  "get_element_type NullNode = dynamic"
| "get_element_type (Constant t sh vs) = t"
| "get_element_type (Parameter (Param n t ps)) = t"
| "get_element_type (LogicalOr a b ps) = boolean"
| "get_element_type (Unsqueeze x axes ps) = get_element_type x"
| "get_element_type (Op n args t ps) = t"

fun get_partial_shape :: "node \<Rightarrow> partial_shape" where
  "get_partial_shape NullNode = None"
| "get_partial_shape (Constant t sh vs) = Some (map Some sh)"
| "get_partial_shape (Parameter (Param n t ps)) = ps"
| "get_partial_shape (LogicalOr a b ps) = ps"
| "get_partial_shape (Unsqueeze x axes ps) = ps"
| "get_partial_shape (Op n args t ps) = ps"

text \<open>\<open>Constant::cast_vector<bool>()\<close>: every element converted to \<open>bool\<close>.\<close>

definition cast_vector_bool :: "int list \<Rightarrow> bool list" where
  "cast_vector_bool vs = map (\<lambda>v. v \<noteq> 0) vs"

text \<open>
  Modelled from the spec: the output shape of an \<open>Unsqueeze\<close> node, whose class is not in
  the source file. Section 4.4: the result is "obtained by inserting a new leading axis at
  position 0"; the only axes the importer passes are the constant \<open>[0]\<close>. For other axes
  the model leaves the shape dynamic.
\<close>

fun unsqueeze_shape :: "partial_shape \<Rightarrow> node \<Rightarrow> partial_shape" where
  "unsqueeze_shape (Some ds) (Constant t sh [v]) = (if v = 0 then Some (Some 1 # ds) else None)"
| "unsqueeze_shape _ _ = None"

definition make_Unsqueeze :: "node \<Rightarrow> node \<Rightarrow> node" where
  "make_Unsqueeze x axes = Unsqueeze x axes (unsqueeze_shape (get_partial_shape x) axes)"

subsection \<open>Errors and checked access\<close>

text \<open>
  \<open>Out_Of_Range\<close> is \<open>std::out_of_range\<close>, thrown by \<open>vector::at\<close>.
  \<open>Validation_Failure\<close> is the exception of \<open>CHECK_VALID_NODE\<close>, with the check that
  failed and the two counts of its message. \<open>Undefined_Behaviour\<close> stands for an
  unchecked access outside a vector, to which C++ gives no meaning.
\<close>

datatype validation_check = Body_Inputs_Size | Body_Outputs_Size

datatype error =
    Out_Of_Range
  | Validation_Failure validation_check nat nat
  | Undefined_Behaviour

definition vector_at :: "'a list \<Rightarrow> nat \<Rightarrow> error + 'a" where
  "vector_at xs i = (if i < length xs then Inr (xs ! i) else Inl Out_Of_Range)"

text \<open>
  The unchecked \<open>operator[]\<close> of a vector, as a read and as an assignment: outside the
  vector it has no meaning.
\<close>

definition vector_subscript :: "'a list \<Rightarrow> nat \<Rightarrow> error + 'a" where
  "vector_subscript xs i = (if i < length xs then Inr (xs ! i) else Inl Undefined_Behaviour)"

definition vector_assign :: "'a list \<Rightarrow> nat \<Rightarrow> 'a \<Rightarrow> error + 'a list" where
  "vector_assign xs i v = (if i < length xs then Inr (xs[i := v]) else Inl Undefined_Behaviour)"

subsection \<open>The imported node and its body\<close>

record subgraph =
  get_ng_outputs :: "node list"
  get_ng_parameters :: "parameter list"

record onnx_node =
  get_ng_inputs :: "node list"
  body :: subgraph

subsection \<open>The Loop operator under construction\<close>

text \<open>
  The \<open>Loop\<close> class is outside the source file. The model records what each call of the
  importer hands to it: the two inputs of the constructor, the special body ports, the
  body function (results and parameters), one entry per \<open>set_merged_input\<close>, and one
  output description per \<open>get_iter_value\<close> or \<open>get_concatenated_slices\<close>, whose result
  is the output port of the loop with the index of that description. The validation
  that the constructors and methods of \<open>Loop\<close> and \<open>Function\<close> run on their own
  belongs to those classes and is not part of the model: here they always succeed.
\<close>

datatype output_description =
    Body_Output node int
  | Concat_Output node int int int int int

record loop_op =
  trip_count_input :: node
  execution_condition_input :: node
  special_body_ports :: "int \<times> int"
  body_function :: "(node list \<times> parameter list) option"
  merged_inputs :: "(parameter \<times> node \<times> node) list"
  output_descriptions :: "output_description list"

datatype "output" = Value node | Loop_Port nat

definition make_Loop :: "node \<Rightarrow> node \<Rightarrow> loop_op" where
  "make_Loop trip_count termination_cond =
     \<lparr>trip_count_input = trip_count, execution_condition_input = termination_cond,
      special_body_ports = (-1, -1), body_function = None,
      merged_inputs = [], output_descriptions = []\<rparr>"

definition set_special_body_ports :: "int \<times> int \<Rightarrow> loop_op \<Rightarrow> loop_op" where
  "set_special_body_ports spec_ports l = l\<lparr>special_body_ports := spec_ports\<rparr>"

definition set_function :: "node list \<times> parameter list \<Rightarrow> loop_op \<Rightarrow> loop_op" where
  "set_function f l = l\<lparr>body_function := Some f\<rparr>"

definition set_merged_input :: "parameter \<Rightarrow> node \<Rightarrow> node \<Rightarrow> loop_op \<Rightarrow> loop_op" where
  "set_merged_input body_parameter initial_value successive_value l =
     l\<lparr>merged_inputs := merged_inputs l @ [(body_parameter, initial_value, successive_value)]\<rparr>"

definition get_iter_value :: "node \<Rightarrow> int \<Rightarrow> loop_op \<Rightarrow> output \<times> loop_op" where
  "get_iter_value body_value iteration l =
     (Loop_Port (length (output_descriptions l)),
      l\<lparr>output_descriptions := output_descriptions l @ [Body_Output body_value iteration]\<rparr>)"

definition get_concatenated_slices ::
  "node \<Rightarrow> int \<Rightarrow> int \<Rightarrow> int \<Rightarrow> int \<Rightarrow> int \<Rightarrow> loop_op \<Rightarrow> output \<times> loop_op" where
  "get_concatenated_slices body_value start stride part_size stop axis l =
     (Loop_Port (length (output_descriptions l)),
      l\<lparr>output_descriptions :=
           output_descriptions l @ [Concat_Output body_value start stride part_size stop axis]\<rparr>)"

subsection \<open>is_termination_condition_always_true (lines 52-74)\<close>

text \<open>
  The three conjuncts of the inner test are evaluated left to right, so \<open>at(0)\<close> is
  only reached for a boolean constant; it throws on a constant without elements.
  \<open>as_type_ptr<Constant>\<close> gives the null pointer for a node that is no constant, which
  the test before it excludes.
\<close>

fun is_termination_condition_always_true :: "node \<Rightarrow> error + bool" where
  "is_termination_condition_always_true (LogicalOr first_input second_input ps) =
     (if is_constant second_input \<and> get_element_type second_input = boolean
      then (case second_input of
              Constant t sh vs \<Rightarrow>
                (case vector_at (cast_vector_bool vs) 0 of
                   Inl e \<Rightarrow> Inl e
                 | Inr b \<Rightarrow> Inr (b = False))
            | _ \<Rightarrow> Inl Undefined_Behaviour)
      else Inr False)"
| "is_termination_condition_always_true _ = Inr False"

subsection \<open>loop: the optional inputs (lines 88-140)\<close>

text \<open>Lines 88-98. Without a trip count the loop gets the constant \<open>-1\<close>.\<close>

definition resolve_trip_count :: "node list \<Rightarrow> error + node" where
  "resolve_trip_count ng_inputs =
     (case vector_at ng_inputs 0 of
        Inl e \<Rightarrow> Inl e
      | Inr in0 \<Rightarrow>
          if is_null in0 then Inr (Constant i64 [1] [-1])
          else vector_at ng_inputs 0)"

text \<open>
  Lines 100-140. The branch for a constant reads element 0 of the converted vector with
  the unchecked \<open>operator[]\<close>; its \<open>else\<close> leaves \<open>loop\<close> with the initial values,
  which the model reports as \<open>Zero_Iterations\<close>. As above, \<open>as_type_ptr<Constant>\<close>
  is only reached for a constant.
\<close>

definition const_true :: node where
  "const_true = Constant boolean [1] [1]"

datatype cond_resolution = Run_Loop node | Zero_Iterations

definition resolve_termination_cond :: "node list \<Rightarrow> error + cond_resolution" where
  "resolve_termination_cond ng_inputs =
     (case vector_at ng_inputs 1 of
        Inl e \<Rightarrow> Inl e
      | Inr in1 \<Rightarrow>
          if is_null in1 then Inr (Run_Loop const_true)
          else if is_constant in1 then
            (case in1 of
               Constant t sh vs \<Rightarrow>
                 (case cast_vector_bool vs of
                    [] \<Rightarrow> Inl Undefined_Behaviour
                  | b # bs \<Rightarrow> if b then Inr (Run_Loop const_true) else Inr Zero_Iterations)
             | _ \<Rightarrow> Inl Undefined_Behaviour)
          else Inr (Run_Loop const_true))"

subsection \<open>loop: scalar handling of the scan outputs (lines 142-155)\<close>

definition concat_axis :: int where
  "concat_axis = 0"

definition concat_axis_const :: node where
  "concat_axis_const = Constant i64 [1] [concat_axis]"

text \<open>
  The body of the \<open>for\<close> loop at index \<open>i\<close>, and the loop over
  \<open>i = k + 1, ..., size - 1\<close>. The size of the vector does not change in the loop.
  The counter is an \<open>int\<close> compared with a \<open>size_t\<close>; the model takes vectors shorter
  than \<open>2^31\<close>, where the two agree with the natural numbers.
\<close>

definition is_static_scalar :: "node \<Rightarrow> bool" where
  "is_static_scalar v =
     (let body_output_shape = get_partial_shape v
      in is_static body_output_shape \<and> is_scalar (to_shape body_output_shape))"

definition scalar_handling_step :: "nat \<Rightarrow> node list \<Rightarrow> node list" where
  "scalar_handling_step i body_outputs =
     (if is_static_scalar (body_outputs ! i)
      then body_outputs[i := make_Unsqueeze (body_outputs ! i) concat_axis_const]
      else body_outputs)"

definition scalar_handling :: "nat \<Rightarrow> node list \<Rightarrow> node list" where
  "scalar_handling k body_outputs =
     fold scalar_handling_step [k + 1 ..< length body_outputs] body_outputs"

text \<open>
  The same \<open>for\<close> loop with its counter, its guard \<open>i < body_outputs.size()\<close> tested
  before every round, and the accesses \<open>body_outputs[i]\<close> of lines 148-153 as the
  unchecked accesses they are. This is the form that \<open>loop\<close> runs, started at
  \<open>i = k + 1\<close>; that it never fails and yields \<open>scalar_handling k\<close> is lemma
  \<open>scalar_handling_loop_eq\<close>.
\<close>

function scalar_handling_loop :: "nat \<Rightarrow> node list \<Rightarrow> error + node list" where
  "scalar_handling_loop i body_outputs =
     (if i < length body_outputs
      then (case vector_subscript body_outputs i of
              Inl e \<Rightarrow> Inl e
            | Inr v \<Rightarrow>
                if is_static_scalar v
                then (case vector_assign body_outputs i (make_Unsqueeze v concat_axis_const) of
                        Inl e \<Rightarrow> Inl e
                      | Inr body_outputs' \<Rightarrow> scalar_handling_loop (Suc i) body_outputs')
                else scalar_handling_loop (Suc i) body_outputs)
      else Inr body_outputs)"
  by pat_completeness auto
termination
  by (relation "measure (\<lambda>(i, body_outputs). length body_outputs - i)")
     (auto simp add: vector_assign_def split: if_splits)

declare scalar_handling_loop.simps [simp del]

subsection \<open>loop: the termination condition of the body (lines 157-170)\<close>

definition no_identity_warning :: string where
  "no_identity_warning =
     ''ONNX Loop: No identity or constant termination condition output ''
     @ ''body is not supported in current version'' @ [CHR 0x0A]"

text \<open>
  The first component is what \<open>NGRAPH_WARN\<close> wrote. The read at line 157 is the
  checked \<open>at(0)\<close>, the assignment at line 161 the unchecked \<open>body_outputs[0]\<close>.
\<close>

definition rewrite_condition :: "node list \<Rightarrow> string list \<times> (error + node list)" where
  "rewrite_condition body_outputs =
     (case vector_at body_outputs 0 of
        Inl e \<Rightarrow> ([], Inl e)
      | Inr body_loop_out_cond \<Rightarrow>
          (case is_termination_condition_always_true body_loop_out_cond of
             Inl e \<Rightarrow> ([], Inl e)
           | Inr always_true \<Rightarrow>
               if always_true then ([], vector_assign body_outputs 0 const_true)
               else ([no_identity_warning], Inr body_outputs)))"

subsection \<open>loop: the two checks on the body (lines 172-187)\<close>

definition check_body_signature :: "nat \<Rightarrow> parameter list \<Rightarrow> node list \<Rightarrow> error + unit" where
  "check_body_signature k body_inputs body_outputs =
     (if \<not> length body_inputs \<ge> k + 2
      then Inl (Validation_Failure Body_Inputs_Size (length body_inputs) (k + 2))
      else if \<not> length body_outputs \<ge> k + 1
      then Inl (Validation_Failure Body_Outputs_Size (length body_outputs) (k + 1))
      else Inr ())"

subsection \<open>loop: building the operator (lines 189-230)\<close>

text \<open>
  Lines 189-191: the parameters from position 2 on, with \<open>body_inputs[0]\<close> put in
  front. Both accesses are unchecked.
\<close>

definition make_body_params :: "parameter list \<Rightarrow> error + parameter list" where
  "make_body_params body_inputs =
     (if length body_inputs < 2 then Inl Undefined_Behaviour
      else Inr (body_inputs ! 0 # drop 2 body_inputs))"

text \<open>
  Lines 204-210. The two iterators are the rests of the two vectors; stepping one past
  the end has no meaning. The result is the rest of the body outputs, the loop, and the
  final values.
\<close>

fun carried_dependencies_loop ::
  "node list \<Rightarrow> parameter list \<Rightarrow> node list \<Rightarrow> loop_op \<Rightarrow> output list
     \<Rightarrow> error + (node list \<times> loop_op \<times> output list)" where
  "carried_dependencies_loop [] body_inputs_it body_outputs_it l final_values =
     Inr (body_outputs_it, l, final_values)"
| "carried_dependencies_loop (dep # deps) (p # body_inputs_it) (v # body_outputs_it) l final_values =
     (let l1 = set_merged_input p dep v l;
          (fv, l2) = get_iter_value v (-1) l1
      in carried_dependencies_loop deps body_inputs_it body_outputs_it l2 (final_values @ [fv]))"
| "carried_dependencies_loop (dep # deps) _ _ l final_values = Inl Undefined_Behaviour"

text \<open>Lines 212-219: start=0, stride=1, part_size=1, end=-1, axis=0.\<close>

fun scan_outputs_loop :: "node list \<Rightarrow> loop_op \<Rightarrow> output list \<Rightarrow> loop_op \<times> output list" where
  "scan_outputs_loop [] l scan_outputs = (l, scan_outputs)"
| "scan_outputs_loop (v # body_outputs_it) l scan_outputs =
     (let (so, l1) = get_concatenated_slices v 0 1 1 (-1) concat_axis l
      in scan_outputs_loop body_outputs_it l1 (scan_outputs @ [so]))"

text \<open>
  What \<open>loop\<close> returns: the output vector, and the loop operator the outputs belong to
  when one was made.
\<close>

record lowering =
  node_outputs :: "output list"
  created_loop :: "loop_op option"

text \<open>
  Lines 189-230 in sequence. Line 202 steps the iterator of the body outputs by one,
  which has no meaning on an empty vector.
\<close>

definition build_loop ::
  "node \<Rightarrow> node \<Rightarrow> node list \<Rightarrow> parameter list \<Rightarrow> node list \<Rightarrow> error + lowering" where
  "build_loop trip_count termination_cond loop_carried_dependencies body_inputs body_outputs =
     (case make_body_params body_inputs of
        Inl e \<Rightarrow> Inl e
      | Inr body_params \<Rightarrow>
          let l0 = set_function (body_outputs, body_params)
                     (set_special_body_ports (0, 0) (make_Loop trip_count termination_cond))
          in if length body_outputs < 1 then Inl Undefined_Behaviour
             else
               (case carried_dependencies_loop loop_carried_dependencies
                       (drop 2 body_inputs) (drop 1 body_outputs) l0 [] of
                  Inl e \<Rightarrow> Inl e
                | Inr (body_outputs_it, l1, final_values) \<Rightarrow>
                    let (l2, scan_outputs) = scan_outputs_loop body_outputs_it l1 []
                    in Inr \<lparr>node_outputs = final_values @ scan_outputs,
                            created_loop = Some l2\<rparr>))"

subsection \<open>loop (lines 77-231)\<close>

text \<open>
  Line 81 builds the carried dependencies from the iterator two past the begin, which
  has no meaning on fewer than two inputs. The result is the log of warnings and either
  the exception or the outputs, with the loop operator they belong to when one was made.
\<close>

definition loop :: "onnx_node \<Rightarrow> string list \<times> (error + lowering)" where
  "loop node =
     (let ng_inputs = get_ng_inputs node
      in if length ng_inputs < 2 then ([], Inl Undefined_Behaviour)
         else
           let loop_carried_dependencies = drop 2 ng_inputs;
               body_graph = body node;
               body_outputs = get_ng_outputs body_graph;
               body_inputs = get_ng_parameters body_graph
           in case resolve_trip_count ng_inputs of
                Inl e \<Rightarrow> ([], Inl e)
              | Inr trip_count \<Rightarrow>
                  (case resolve_termination_cond ng_inputs of
                     Inl e \<Rightarrow> ([], Inl e)
                   | Inr Zero_Iterations \<Rightarrow>
                       ([], Inr \<lparr>node_outputs = map Value loop_carried_dependencies
                                                  @ map Value loop_carried_dependencies,
                                created_loop = None\<rparr>)
                   | Inr (Run_Loop termination_cond) \<Rightarrow>
                       (case scalar_handling_loop (length loop_carried_dependencies + 1)
                               body_outputs of
                          Inl e \<Rightarrow> ([], Inl e)
                        | Inr body_outputs1 \<Rightarrow>
                            (case rewrite_condition body_outputs1 of
                               (warnings, Inl e) \<Rightarrow> (warnings, Inl e)
                             | (warnings, Inr body_outputs') \<Rightarrow>
                                 (case check_body_signature (length loop_carried_dependencies)
                                         body_inputs body_outputs' of
                                    Inl e \<Rightarrow> (warnings, Inl e)
                                  | Inr _ \<Rightarrow>
                                      (warnings,
                                       build_loop trip_count termination_cond
                                         loop_carried_dependencies body_inputs
                                         body_outputs'))))))"

subsection \<open>Reading the result\<close>

text \<open>The loop operator and the outputs of a call that returned.\<close>

definition returned_loop :: "string list \<times> (error + lowering) \<Rightarrow> loop_op option" where
  "returned_loop res = (case snd res of Inl e \<Rightarrow> None | Inr r \<Rightarrow> created_loop r)"

definition returned_outputs :: "string list \<times> (error + lowering) \<Rightarrow> output list option" where
  "returned_outputs res = (case snd res of Inl e \<Rightarrow> None | Inr r \<Rightarrow> Some (node_outputs r))"

subsection \<open>Example nodes\<close>

text \<open>
  A body with one carried value and one scalar scan output, whose condition output is the
  identity pattern, and a Loop node on it without trip count and without condition.
\<close>

definition iter_param :: parameter where
  "iter_param = Param ''i'' i64 (Some [])"

definition cond_param :: parameter where
  "cond_param = Param ''cond_in'' boolean (Some [])"

definition sum_param :: parameter where
  "sum_param = Param ''sum_in'' f32 (Some [])"

definition example_body :: subgraph where
  "example_body =
     \<lparr>get_ng_outputs =
        [LogicalOr (Parameter cond_param) (Constant boolean [] [0]) (Some []),
         Op ''Add'' [Parameter sum_param, Constant f32 [] [1]] f32 (Some []),
         Op ''Convert'' [Parameter iter_param] f32 (Some [])],
      get_ng_parameters = [iter_param, cond_param, sum_param]\<rparr>"

definition example_node :: onnx_node where
  "example_node = \<lparr>get_ng_inputs = [NullNode, NullNode, Constant f32 [] [0]], body = example_body\<rparr>"

text \<open>The parameter list of the body function of the returned loop operator.\<close>

definition returned_body_params :: "string list \<times> (error + lowering) \<Rightarrow> parameter list option" where
  "returned_body_params res =
     (case returned_loop res of
        None \<Rightarrow> None
      | Some l \<Rightarrow> (case body_function l of None \<Rightarrow> None | Some f \<Rightarrow> Some (snd f)))"

text \<open>A Loop node whose body has no outputs at all.\<close>

definition no_outputs_node :: onnx_node where
  "no_outputs_node =
     \<lparr>get_ng_inputs = [NullNode, NullNode],
      body = \<lparr>get_ng_outputs = [], get_ng_parameters = [iter_param, cond_param]\<rparr>\<rparr>"

text \<open>
  A Loop node whose body condition is a logical OR with a boolean constant of shape \<open>[0]\<close>,
  which has no elements.
\<close>

definition empty_constant_node :: onnx_node where
  "empty_constant_node =
     \<lparr>get_ng_inputs = [NullNode, NullNode],
      body = \<lparr>get_ng_outputs =
                [LogicalOr (Parameter cond_param) (Constant boolean [0] []) (Some [Some 0])],
              get_ng_parameters = [iter_param, cond_param]\<rparr>\<rparr>"


text \<open>A Loop node with one carried dependency whose body has the condition output only.\<close>

definition short_body_node :: onnx_node where
  "short_body_node =
     \<lparr>get_ng_inputs = [NullNode, NullNode, Constant f32 [] [0]],
      body = \<lparr>get_ng_outputs = [Parameter cond_param],
              get_ng_parameters = [iter_param, cond_param, sum_param]\<rparr>\<rparr>"


text \<open>
  A Loop node with one carried dependency whose body has no parameters and, as its only
  output, a logical OR with a boolean constant without elements: both checks on the body
  would fail, and the pattern check throws.
\<close>

definition throwing_condition_node :: onnx_node where
  "throwing_condition_node =
     \<lparr>get_ng_inputs = [NullNode, NullNode, Constant f32 [] [0]],
      body = \<lparr>get_ng_outputs =
                [LogicalOr (Parameter cond_param) (Constant boolean [0] []) (Some [Some 0])],
              get_ng_parameters = []\<rparr>\<rparr>"


section \<open>Properties\<close>

subsection \<open>The scalar handling loop\<close>

lemma length_scalar_handling_step:
  "length (scalar_handling_step i outs) = length outs"
  by (simp add: scalar_handling_step_def)

lemma length_fold_scalar_handling_step:
  "length (fold scalar_handling_step is outs) = length outs"
  by (induction "is" arbitrary: outs) (simp_all add: length_scalar_handling_step)

lemma nth_scalar_handling_step:
  "j < length outs \<Longrightarrow>
   scalar_handling_step i outs ! j =
     (if j = i \<and> is_static_scalar (outs ! j)
      then make_Unsqueeze (outs ! j) concat_axis_const else outs ! j)"
  by (cases "j = i") (simp_all add: scalar_handling_step_def)

lemma nth_fold_scalar_handling_step:
  "b \<le> length outs \<Longrightarrow> j < length outs \<Longrightarrow>
   fold scalar_handling_step [a ..< b] outs ! j =
     (if a \<le> j \<and> j < b \<and> is_static_scalar (outs ! j)
      then make_Unsqueeze (outs ! j) concat_axis_const else outs ! j)"
proof (induction b)
  case 0
  then show ?case by simp
next
  case (Suc b)
  show ?case
  proof (cases "a \<le> b")
    case False
    then show ?thesis by auto
  next
    case True
    have "fold scalar_handling_step [a ..< Suc b] outs
            = scalar_handling_step b (fold scalar_handling_step [a ..< b] outs)"
      using True by simp
    moreover have "j < length (fold scalar_handling_step [a ..< b] outs)"
      using Suc.prems by (simp add: length_fold_scalar_handling_step)
    ultimately show ?thesis
      using Suc True by (auto simp add: nth_scalar_handling_step less_Suc_eq)
  qed
qed

lemma length_scalar_handling: "length (scalar_handling k outs) = length outs"
  by (simp add: scalar_handling_def length_fold_scalar_handling_step)

lemma nth_scalar_handling:
  "j < length outs \<Longrightarrow>
   scalar_handling k outs ! j =
     (if k + 1 \<le> j \<and> is_static_scalar (outs ! j)
      then make_Unsqueeze (outs ! j) concat_axis_const else outs ! j)"
  by (simp add: scalar_handling_def nth_fold_scalar_handling_step)

text \<open>The loop with its counter never leaves the vector and computes the fold.\<close>

lemma scalar_handling_loop_fold:
  "scalar_handling_loop i outs = Inr (fold scalar_handling_step [i ..< length outs] outs)"
proof (induction i outs rule: scalar_handling_loop.induct)
  case (1 i outs)
  show ?case
  proof (cases "i < length outs")
    case False
    then show ?thesis
      by (subst scalar_handling_loop.simps) simp
  next
    case True
    then have u: "[i ..< length outs] = i # [Suc i ..< length outs]"
      by (rule upt_conv_Cons)
    have r: "vector_subscript outs i = Inr (outs ! i)"
      using True by (simp add: vector_subscript_def)
    show ?thesis
    proof (cases "is_static_scalar (outs ! i)")
      case False
      have st: "scalar_handling_step i outs = outs"
        using False by (simp add: scalar_handling_step_def)
      have "scalar_handling_loop (Suc i) outs
              = Inr (fold scalar_handling_step [Suc i ..< length outs] outs)"
        using True r False by (rule "1.IH"(2))
      then show ?thesis
        using True False
        by (subst scalar_handling_loop.simps) (simp add: u r st)
    next
      case s: True
      let ?outs' = "outs[i := make_Unsqueeze (outs ! i) concat_axis_const]"
      have st: "scalar_handling_step i outs = ?outs'"
        using s by (simp add: scalar_handling_step_def)
      have w: "vector_assign outs i (make_Unsqueeze (outs ! i) concat_axis_const) = Inr ?outs'"
        using True by (simp add: vector_assign_def)
      have "scalar_handling_loop (Suc i) ?outs'
              = Inr (fold scalar_handling_step [Suc i ..< length ?outs'] ?outs')"
        using True r s w by (rule "1.IH"(1))
      then show ?thesis
        using True s
        by (subst scalar_handling_loop.simps) (simp add: u r w st)
    qed
  qed
qed

lemma scalar_handling_loop_Suc:
  "scalar_handling_loop (Suc k) outs = Inr (scalar_handling k outs)"
  by (simp add: scalar_handling_loop_fold scalar_handling_def)

lemma scalar_handling_loop_eq:
  "scalar_handling_loop (k + 1) outs = Inr (scalar_handling k outs)"
  by (simp add: scalar_handling_loop_Suc)

lemma rewrite_condition_unfold:
  "rewrite_condition body_outputs =
     (case vector_at body_outputs 0 of
        Inl e \<Rightarrow> ([], Inl e)
      | Inr body_loop_out_cond \<Rightarrow>
          (case is_termination_condition_always_true body_loop_out_cond of
             Inl e \<Rightarrow> ([], Inl e)
           | Inr always_true \<Rightarrow>
               if always_true then ([], Inr (body_outputs[0 := const_true]))
               else ([no_identity_warning], Inr body_outputs)))"
  by (auto simp add: rewrite_condition_def vector_at_def vector_assign_def split: sum.splits)

lemma loop_unfold:
  "loop node =
     (let ng_inputs = get_ng_inputs node
      in if length ng_inputs < 2 then ([], Inl Undefined_Behaviour)
         else
           let loop_carried_dependencies = drop 2 ng_inputs;
               body_graph = body node;
               body_outputs = get_ng_outputs body_graph;
               body_inputs = get_ng_parameters body_graph
           in case resolve_trip_count ng_inputs of
                Inl e \<Rightarrow> ([], Inl e)
              | Inr trip_count \<Rightarrow>
                  (case resolve_termination_cond ng_inputs of
                     Inl e \<Rightarrow> ([], Inl e)
                   | Inr Zero_Iterations \<Rightarrow>
                       ([], Inr \<lparr>node_outputs = map Value loop_carried_dependencies
                                                  @ map Value loop_carried_dependencies,
                                created_loop = None\<rparr>)
                   | Inr (Run_Loop termination_cond) \<Rightarrow>
                       (case rewrite_condition
                               (scalar_handling (length loop_carried_dependencies) body_outputs) of
                          (warnings, Inl e) \<Rightarrow> (warnings, Inl e)
                        | (warnings, Inr body_outputs') \<Rightarrow>
                            (case check_body_signature (length loop_carried_dependencies)
                                    body_inputs body_outputs' of
                               Inl e \<Rightarrow> (warnings, Inl e)
                             | Inr _ \<Rightarrow>
                                 (warnings,
                                  build_loop trip_count termination_cond
                                    loop_carried_dependencies body_inputs body_outputs')))))"
  by (simp add: loop_def scalar_handling_loop_Suc Let_def
      split: sum.split cond_resolution.split)

subsection \<open>The two loops over the loop operator\<close>

lemma upt_shift_Cons: "[m ..< Suc (m + n)] = m # [Suc m ..< Suc (m + n)]"
  by (rule upt_conv_Cons) simp

lemma carried_dependencies_loop_eq:
  "length deps \<le> length ins \<Longrightarrow> length deps \<le> length outs \<Longrightarrow>
   carried_dependencies_loop deps ins outs l fv =
     Inr (drop (length deps) outs,
          l\<lparr>merged_inputs :=
               merged_inputs l @ zip (take (length deps) ins) (zip deps (take (length deps) outs)),
             output_descriptions :=
               output_descriptions l @ map (\<lambda>v. Body_Output v (-1)) (take (length deps) outs)\<rparr>,
          fv @ map Loop_Port [length (output_descriptions l) ..<
                               length (output_descriptions l) + length deps])"
proof (induction deps arbitrary: ins outs l fv)
  case Nil
  then show ?case by simp
next
  case (Cons dep deps)
  then obtain p ins' v outs' where eq: "ins = p # ins'" "outs = v # outs'"
    by (cases ins; cases outs) auto
  with Cons.prems have le: "length deps \<le> length ins'" "length deps \<le> length outs'"
    by simp_all
  show ?case
    unfolding eq
    by (simp add: Cons.IH [OF le] set_merged_input_def get_iter_value_def
          upt_shift_Cons del: upt_Suc)
qed

lemma scan_outputs_loop_eq:
  "scan_outputs_loop vs l acc =
     (l\<lparr>output_descriptions :=
          output_descriptions l @ map (\<lambda>v. Concat_Output v 0 1 1 (-1) concat_axis) vs\<rparr>,
      acc @ map Loop_Port [length (output_descriptions l) ..<
                            length (output_descriptions l) + length vs])"
proof (induction vs arbitrary: l acc)
  case Nil
  then show ?case by simp
next
  case (Cons v vs)
  show ?case
    by (simp add: Cons.IH get_concatenated_slices_def upt_shift_Cons del: upt_Suc)
qed

lemma build_loop_eq:
  assumes "length deps + 2 \<le> length body_inputs" "length deps + 1 \<le> length body_outputs"
  shows "build_loop tc cond deps body_inputs body_outputs =
           Inr \<lparr>node_outputs = map Loop_Port [0 ..< length body_outputs - 1],
                created_loop = Some
                  \<lparr>trip_count_input = tc,
                   execution_condition_input = cond,
                   special_body_ports = (0, 0),
                   body_function = Some (body_outputs, body_inputs ! 0 # drop 2 body_inputs),
                   merged_inputs =
                     zip (take (length deps) (drop 2 body_inputs))
                         (zip deps (take (length deps) (drop 1 body_outputs))),
                   output_descriptions =
                     map (\<lambda>v. Body_Output v (-1)) (take (length deps) (drop 1 body_outputs))
                     @ map (\<lambda>v. Concat_Output v 0 1 1 (-1) 0)
                         (drop (length deps + 1) body_outputs)\<rparr>\<rparr>"
proof -
  have u: "[0 ..< length deps]
             @ [length deps ..< length deps + (length body_outputs - Suc (length deps))]
           = [0 ..< length body_outputs - 1]"
  proof -
    have "length body_outputs - 1 = length deps + (length body_outputs - Suc (length deps))"
      using assms by simp
    then show ?thesis
      using upt_add_eq_append [of 0 "length deps" "length body_outputs - Suc (length deps)"]
      by simp
  qed
  have u': "map Loop_Port [0 ..< length deps]
             @ map Loop_Port [length deps ..< length body_outputs - Suc 0]
           = map Loop_Port [0 ..< length body_outputs - Suc 0]"
    using arg_cong [OF u, of "map Loop_Port"] assms by simp
  have ne: "body_outputs \<noteq> []"
    using assms by auto
  show ?thesis
    using assms u' ne
    by (simp add: build_loop_def make_body_params_def carried_dependencies_loop_eq
        scan_outputs_loop_eq set_function_def set_special_body_ports_def make_Loop_def
        concat_axis_def del: upt_Suc)
qed

subsection \<open>The general case in closed form\<close>

lemma rewrite_condition_length:
  "rewrite_condition outs = (w, Inr outs') \<Longrightarrow> length outs' = length outs"
  by (auto simp add: rewrite_condition_unfold split: sum.splits if_splits)

lemma loop_general:
  assumes "get_ng_inputs node = in0 # in1 # deps"
    and "resolve_termination_cond (in0 # in1 # deps) = Inr (Run_Loop tc)"
    and "rewrite_condition (scalar_handling (length deps) (get_ng_outputs (body node)))
           = (w, Inr outs')"
    and "length deps + 2 \<le> length (get_ng_parameters (body node))"
    and "length deps + 1 \<le> length (get_ng_outputs (body node))"
  shows "loop node =
           (w, Inr \<lparr>node_outputs = map Loop_Port [0 ..< length outs' - 1],
                created_loop = Some
                  \<lparr>trip_count_input = (if is_null in0 then Constant i64 [1] [-1] else in0),
                   execution_condition_input = tc,
                   special_body_ports = (0, 0),
                   body_function =
                     Some (outs', get_ng_parameters (body node) ! 0
                                    # drop 2 (get_ng_parameters (body node))),
                   merged_inputs =
                     zip (take (length deps) (drop 2 (get_ng_parameters (body node))))
                         (zip deps (take (length deps) (drop 1 outs'))),
                   output_descriptions =
                     map (\<lambda>v. Body_Output v (-1)) (take (length deps) (drop 1 outs'))
                     @ map (\<lambda>v. Concat_Output v 0 1 1 (-1) 0)
                         (drop (length deps + 1) outs')\<rparr>\<rparr>)"
proof -
  have len: "length outs' = length (get_ng_outputs (body node))"
    using rewrite_condition_length [OF assms(3)] by (simp add: length_scalar_handling)
  have chk: "check_body_signature (length deps) (get_ng_parameters (body node)) outs' = Inr ()"
    using assms(4,5) len by (simp add: check_body_signature_def)
  show ?thesis
    using assms(4,5) len
    by (simp add: loop_unfold Let_def assms(1,2,3) resolve_trip_count_def vector_at_def chk
        build_loop_eq)
qed

lemma loop_inversion:
  assumes "loop node = (w, Inr r)" and "created_loop r = Some l"
  shows "\<exists>in0 in1 deps tc outs'.
           get_ng_inputs node = in0 # in1 # deps
         \<and> resolve_termination_cond (in0 # in1 # deps) = Inr (Run_Loop tc)
         \<and> rewrite_condition (scalar_handling (length deps) (get_ng_outputs (body node)))
             = (w, Inr outs')
         \<and> length deps + 2 \<le> length (get_ng_parameters (body node))
         \<and> length deps + 1 \<le> length (get_ng_outputs (body node))"
proof -
  have "2 \<le> length (get_ng_inputs node)"
    using assms(1) by (auto simp add: loop_unfold Let_def split: if_splits)
  then obtain in0 in1 deps where ins: "get_ng_inputs node = in0 # in1 # deps"
    by (cases "get_ng_inputs node"; cases "tl (get_ng_inputs node)") auto
  show ?thesis
    using assms
    by (auto simp add: loop_unfold Let_def ins resolve_trip_count_def vector_at_def
          check_body_signature_def length_scalar_handling
        split: sum.splits cond_resolution.splits prod.splits if_splits
        dest!: rewrite_condition_length)
qed

lemma returned_loop_cases:
  assumes "returned_loop (loop node) = Some l"
  obtains in0 in1 deps tc w outs' where
    "get_ng_inputs node = in0 # in1 # deps"
    "resolve_termination_cond (in0 # in1 # deps) = Inr (Run_Loop tc)"
    "rewrite_condition (scalar_handling (length deps) (get_ng_outputs (body node)))
       = (w, Inr outs')"
    "length deps + 2 \<le> length (get_ng_parameters (body node))"
    "length deps + 1 \<le> length (get_ng_outputs (body node))"
proof -
  obtain w r where "loop node = (w, Inr r)" "created_loop r = Some l"
    using assms by (cases "loop node") (auto simp add: returned_loop_def split: sum.splits)
  from loop_inversion [OF this] that show thesis by blast
qed

subsection \<open>The example node evaluated\<close>

lemma example_node_loop:
  "loop example_node =
     ([],
      Inr \<lparr>node_outputs = [Loop_Port 0, Loop_Port 1],
           created_loop = Some
             \<lparr>trip_count_input = Constant i64 [1] [-1],
              execution_condition_input = Constant boolean [1] [1],
              special_body_ports = (0, 0),
              body_function =
                Some ([Constant boolean [1] [1],
                       Op ''Add'' [Parameter sum_param, Constant f32 [] [1]] f32 (Some []),
                       Unsqueeze (Op ''Convert'' [Parameter iter_param] f32 (Some []))
                         (Constant i64 [1] [0]) (Some [Some 1])],
                      [iter_param, sum_param]),
              merged_inputs =
                [(sum_param, Constant f32 [] [0],
                  Op ''Add'' [Parameter sum_param, Constant f32 [] [1]] f32 (Some []))],
              output_descriptions =
                [Body_Output
                   (Op ''Add'' [Parameter sum_param, Constant f32 [] [1]] f32 (Some [])) (-1),
                 Concat_Output
                   (Unsqueeze (Op ''Convert'' [Parameter iter_param] f32 (Some []))
                      (Constant i64 [1] [0]) (Some [Some 1]))
                   0 1 1 (-1) 0]\<rparr>\<rparr>)"
  by code_simp

lemma example_node_returned_loop: "\<exists>l. returned_loop (loop example_node) = Some l"
  by (simp add: example_node_loop returned_loop_def)

subsection \<open>The optional inputs\<close>

text \<open>
  C9. When input 0 is the null node the trip count is the constant \<open>-1\<close> (element type
  i64, shape [1]); otherwise it is input 0 itself. This holds for the value computed at
  lines 88-98 and for the trip count input of every loop operator that \<open>loop\<close> returns.
\<close>

theorem C9_trip_count:
  "resolve_trip_count (in0 # ins) =
     Inr (if is_null in0 then Constant i64 [1] [-1] else in0)
   \<and> (\<forall>l. returned_loop (loop \<lparr>get_ng_inputs = in0 # ins, body = b\<rparr>) = Some l \<longrightarrow>
          trip_count_input l = (if is_null in0 then Constant i64 [1] [-1] else in0))"
proof (intro conjI allI impI)
  show "resolve_trip_count (in0 # ins) =
     Inr (if is_null in0 then Constant i64 [1] [-1] else in0)"
    by (simp add: resolve_trip_count_def vector_at_def)
next
  fix l
  assume a: "returned_loop (loop \<lparr>get_ng_inputs = in0 # ins, body = b\<rparr>) = Some l"
  from a show "trip_count_input l = (if is_null in0 then Constant i64 [1] [-1] else in0)"
  proof (rule returned_loop_cases)
    fix in0' in1 deps tc w outs'
    assume h: "get_ng_inputs \<lparr>get_ng_inputs = in0 # ins, body = b\<rparr> = in0' # in1 # deps"
      "resolve_termination_cond (in0' # in1 # deps) = Inr (Run_Loop tc)"
      "rewrite_condition (scalar_handling (length deps)
          (get_ng_outputs (body \<lparr>get_ng_inputs = in0 # ins, body = b\<rparr>))) = (w, Inr outs')"
      "length deps + 2
         \<le> length (get_ng_parameters (body \<lparr>get_ng_inputs = in0 # ins, body = b\<rparr>))"
      "length deps + 1
         \<le> length (get_ng_outputs (body \<lparr>get_ng_inputs = in0 # ins, body = b\<rparr>))"
    from h(1) have e: "in0' = in0" by simp
    show ?thesis
      using a unfolding loop_general [OF h] e
      by (auto simp add: returned_loop_def)
  qed
qed

theorem C9_trip_count_witness:
  "resolve_trip_count (get_ng_inputs example_node) = Inr (Constant i64 [1] [-1])
   \<and> map_option trip_count_input (returned_loop (loop example_node))
       = Some (Constant i64 [1] [-1])"
proof -
  obtain l where l: "returned_loop (loop example_node) = Some l"
    using example_node_returned_loop by auto
  have n: "example_node =
             \<lparr>get_ng_inputs = NullNode # [NullNode, Constant f32 [] [0]], body = example_body\<rparr>"
    by (simp add: example_node_def)
  show ?thesis
    using C9_trip_count [of NullNode "[NullNode, Constant f32 [] [0]]" example_body] l
    unfolding n [symmetric] by (simp add: example_node_def)
qed

lemma resolve_termination_cond_Run_Loop:
  "resolve_termination_cond ins = Inr (Run_Loop tc) \<Longrightarrow> tc = Constant boolean [1] [1]"
  by (auto simp add: resolve_termination_cond_def const_true_def
      split: sum.splits if_splits node.splits list.splits)

lemma resolve_termination_cond_Constant:
  "resolve_termination_cond (in0 # Constant t sh (v # vs) # deps) =
     Inr (if v = 0 then Zero_Iterations else Run_Loop (Constant boolean [1] [1]))"
  by (simp add: resolve_termination_cond_def vector_at_def cast_vector_bool_def const_true_def)

text \<open>
  C8. The termination condition computed at lines 100-140 is the constant \<open>true\<close>
  (element type boolean, shape [1]) when input 1 is the null node, when it is a boolean
  constant whose value is true, and when it is neither null nor a constant. It is also
  the condition input of every loop operator that \<open>loop\<close> returns.
\<close>

theorem C8_termination_cond:
  "resolve_termination_cond (in0 # NullNode # deps) = Inr (Run_Loop (Constant boolean [1] [1]))
   \<and> (v \<noteq> 0 \<longrightarrow>
        resolve_termination_cond (in0 # Constant boolean sh (v # vs) # deps)
          = Inr (Run_Loop (Constant boolean [1] [1])))
   \<and> (\<not> is_null in1 \<and> \<not> is_constant in1 \<longrightarrow>
        resolve_termination_cond (in0 # in1 # deps) = Inr (Run_Loop (Constant boolean [1] [1])))
   \<and> (\<forall>l. returned_loop (loop node) = Some l \<longrightarrow>
          execution_condition_input l = Constant boolean [1] [1])"
proof (intro conjI allI impI)
  show "resolve_termination_cond (in0 # NullNode # deps)
          = Inr (Run_Loop (Constant boolean [1] [1]))"
    by (simp add: resolve_termination_cond_def vector_at_def const_true_def)
next
  assume "v \<noteq> 0"
  then show "resolve_termination_cond (in0 # Constant boolean sh (v # vs) # deps)
               = Inr (Run_Loop (Constant boolean [1] [1]))"
    by (simp add: resolve_termination_cond_Constant)
next
  assume "\<not> is_null in1 \<and> \<not> is_constant in1"
  then show "resolve_termination_cond (in0 # in1 # deps)
               = Inr (Run_Loop (Constant boolean [1] [1]))"
    by (simp add: resolve_termination_cond_def vector_at_def const_true_def)
next
  fix l
  assume a: "returned_loop (loop node) = Some l"
  from a show "execution_condition_input l = Constant boolean [1] [1]"
  proof (rule returned_loop_cases)
    fix in0 in1 deps tc w outs'
    assume h: "get_ng_inputs node = in0 # in1 # deps"
      "resolve_termination_cond (in0 # in1 # deps) = Inr (Run_Loop tc)"
      "rewrite_condition (scalar_handling (length deps) (get_ng_outputs (body node)))
         = (w, Inr outs')"
      "length deps + 2 \<le> length (get_ng_parameters (body node))"
      "length deps + 1 \<le> length (get_ng_outputs (body node))"
    show ?thesis
      using a resolve_termination_cond_Run_Loop [OF h(2)] unfolding loop_general [OF h]
      by (auto simp add: returned_loop_def)
  qed
qed

theorem C8_termination_cond_witness:
  "resolve_termination_cond [NullNode, NullNode] = Inr (Run_Loop (Constant boolean [1] [1]))
   \<and> resolve_termination_cond [NullNode, Constant boolean [2] [1, 0]]
       = Inr (Run_Loop (Constant boolean [1] [1]))
   \<and> resolve_termination_cond [NullNode, Parameter cond_param]
       = Inr (Run_Loop (Constant boolean [1] [1]))
   \<and> map_option execution_condition_input (returned_loop (loop example_node))
       = Some (Constant boolean [1] [1])"
proof -
  obtain l where l: "returned_loop (loop example_node) = Some l"
    using example_node_returned_loop by auto
  show ?thesis
    using C8_termination_cond [of NullNode "[]" 1 "[2]" "[0]" "Parameter cond_param" example_node] l
    by simp
qed

text \<open>
  C10. For a constant input 1 only element 0 decides: when it converts to \<open>false\<close> the
  zero-iteration return is taken, when it converts to \<open>true\<close> the condition is the
  synthesized constant \<open>true\<close>; the remaining elements (and the shape) change nothing in
  the result of \<open>loop\<close>.
\<close>

theorem C10_first_element:
  "resolve_termination_cond (in0 # Constant t sh (v # vs) # deps) =
     Inr (if v = 0 then Zero_Iterations else Run_Loop (Constant boolean [1] [1]))
   \<and> loop \<lparr>get_ng_inputs = in0 # Constant t sh (v # vs) # deps, body = b\<rparr>
       = loop \<lparr>get_ng_inputs = in0 # Constant t sh' [v] # deps, body = b\<rparr>
   \<and> (v = 0 \<longrightarrow>
        returned_outputs (loop \<lparr>get_ng_inputs = in0 # Constant t sh (v # vs) # deps, body = b\<rparr>)
          = Some (map Value deps @ map Value deps))"
  by (simp add: resolve_termination_cond_Constant loop_unfold Let_def resolve_trip_count_def
      vector_at_def returned_outputs_def)

theorem C10_first_element_witness:
  "resolve_termination_cond [NullNode, Constant boolean [3] [0, 1, 1]] = Inr Zero_Iterations
   \<and> resolve_termination_cond [NullNode, Constant boolean [3] [1, 0, 0]]
       = Inr (Run_Loop (Constant boolean [1] [1]))
   \<and> loop \<lparr>get_ng_inputs = [NullNode, Constant boolean [3] [0, 1, 1]], body = example_body\<rparr>
       = loop \<lparr>get_ng_inputs = [NullNode, Constant boolean [1] [0]], body = example_body\<rparr>
   \<and> returned_outputs
        (loop \<lparr>get_ng_inputs = [NullNode, Constant boolean [3] [0, 1, 1]], body = example_body\<rparr>)
       = Some []"
proof -
  note f = C10_first_element [of NullNode boolean "[3]" 0 "[1, 1]" "[]" example_body "[1]"]
  note t = C10_first_element [of NullNode boolean "[3]" 1 "[0, 0]" "[]" example_body "[1]"]
  have 1: "resolve_termination_cond [NullNode, Constant boolean [3] [0, 1, 1]]
             = Inr Zero_Iterations"
    using f [THEN conjunct1] by simp
  have 2: "resolve_termination_cond [NullNode, Constant boolean [3] [1, 0, 0]]
             = Inr (Run_Loop (Constant boolean [1] [1]))"
    using t [THEN conjunct1] by simp
  have 3: "loop \<lparr>get_ng_inputs = [NullNode, Constant boolean [3] [0, 1, 1]], body = example_body\<rparr>
             = loop \<lparr>get_ng_inputs = [NullNode, Constant boolean [1] [0]], body = example_body\<rparr>"
    using f [THEN conjunct2, THEN conjunct1] .
  have 4: "returned_outputs
             (loop \<lparr>get_ng_inputs = [NullNode, Constant boolean [3] [0, 1, 1]],
                    body = example_body\<rparr>) = Some []"
    using f [THEN conjunct2, THEN conjunct2] by simp
  show ?thesis
    using 1 2 3 4 by blast
qed

lemma loop_zero_iterations:
  "loop \<lparr>get_ng_inputs = in0 # Constant t sh (0 # vs) # deps, body = b\<rparr> =
     ([], Inr \<lparr>node_outputs = map Value deps @ map Value deps, created_loop = None\<rparr>)"
  by (simp add: resolve_termination_cond_Constant loop_unfold Let_def resolve_trip_count_def
      vector_at_def)

subsection \<open>The zero-iteration return\<close>

text \<open>
  C4. With \<open>k\<close> carried dependencies and a constant input 1 whose element 0 is false,
  \<open>loop\<close> returns \<open>2k\<close> outputs; the first \<open>k\<close> and the last \<open>k\<close> are the
  carried dependency inputs, in order, and no loop operator is made.
\<close>

theorem C4_zero_iterations:
  "loop \<lparr>get_ng_inputs = in0 # Constant t sh (0 # vs) # deps, body = b\<rparr> =
     ([], Inr \<lparr>node_outputs = map Value deps @ map Value deps, created_loop = None\<rparr>)
   \<and> length (map Value deps @ map Value deps) = 2 * length deps
   \<and> take (length deps) (map Value deps @ map Value deps) = map Value deps
   \<and> drop (length deps) (map Value deps @ map Value deps) = map Value deps
   \<and> returned_loop (loop \<lparr>get_ng_inputs = in0 # Constant t sh (0 # vs) # deps, body = b\<rparr>)
       = None"
  by (simp add: loop_zero_iterations returned_loop_def)

theorem C4_zero_iterations_witness:
  "loop \<lparr>get_ng_inputs = [NullNode, Constant boolean [] [0], Constant f32 [] [7]],
         body = example_body\<rparr>
     = ([], Inr \<lparr>node_outputs = [Value (Constant f32 [] [7]), Value (Constant f32 [] [7])],
                created_loop = None\<rparr>)"
  using C4_zero_iterations [of NullNode boolean "[]" "[]" "[Constant f32 [] [7]]" example_body]
  by simp

text \<open>
  C3. On the zero-iteration return the body plays no part: the result is the same for
  every body, it is never an exception (so neither check on the body has run), nothing
  is logged, and no loop operator, hence no body function, is made.
\<close>

theorem C3_body_untouched:
  "loop \<lparr>get_ng_inputs = in0 # Constant t sh (0 # vs) # deps, body = b\<rparr>
     = loop \<lparr>get_ng_inputs = in0 # Constant t sh (0 # vs) # deps, body = b'\<rparr>
   \<and> returned_loop (loop \<lparr>get_ng_inputs = in0 # Constant t sh (0 # vs) # deps, body = b\<rparr>)
       = None
   \<and> fst (loop \<lparr>get_ng_inputs = in0 # Constant t sh (0 # vs) # deps, body = b\<rparr>) = []
   \<and> (\<forall>e. snd (loop \<lparr>get_ng_inputs = in0 # Constant t sh (0 # vs) # deps, body = b\<rparr>)
            \<noteq> Inl e)"
  by (simp add: loop_zero_iterations returned_loop_def)

theorem C3_body_untouched_witness:
  "loop \<lparr>get_ng_inputs = [NullNode, Constant boolean [] [0], Constant f32 [] [7]],
         body = \<lparr>get_ng_outputs = [], get_ng_parameters = []\<rparr>\<rparr>
     = loop \<lparr>get_ng_inputs = [NullNode, Constant boolean [] [0], Constant f32 [] [7]],
             body = example_body\<rparr>
   \<and> check_body_signature 1 [] [] = Inl (Validation_Failure Body_Inputs_Size 0 3)
   \<and> returned_loop
        (loop \<lparr>get_ng_inputs = [NullNode, Constant boolean [] [0], Constant f32 [] [7]],
               body = \<lparr>get_ng_outputs = [], get_ng_parameters = []\<rparr>\<rparr>) = None
   \<and> returned_outputs
        (loop \<lparr>get_ng_inputs = [NullNode, Constant boolean [] [0], Constant f32 [] [7]],
               body = \<lparr>get_ng_outputs = [], get_ng_parameters = []\<rparr>\<rparr>)
       = Some [Value (Constant f32 [] [7]), Value (Constant f32 [] [7])]"
  using C3_body_untouched [of NullNode boolean "[]" "[]" "[Constant f32 [] [7]]"
          "\<lparr>get_ng_outputs = [], get_ng_parameters = []\<rparr>" example_body]
  by (simp add: check_body_signature_def loop_zero_iterations returned_outputs_def)



subsection \<open>Scalar handling\<close>



lemma rewrite_condition_nth:
  "rewrite_condition outs = (w, Inr outs') \<Longrightarrow> 1 \<le> i \<Longrightarrow> outs' ! i = outs ! i"
  by (auto simp add: rewrite_condition_unfold split: sum.splits if_splits)

subsection \<open>The outputs of the general case\<close>

text \<open>
  C7. When \<open>loop\<close> returns a loop operator for a node with \<open>k\<close> carried dependencies
  and a body with \<open>k + 1 + m\<close> outputs, it returns \<open>k + m\<close> outputs, the ports
  \<open>0, ..., k + m - 1\<close> of the loop operator in this order. Port \<open>i < k\<close> is the value
  of body output \<open>i + 1\<close> at iteration \<open>-1\<close>; port \<open>k + j\<close> is the concatenation of
  body output \<open>k + 1 + j\<close> with start 0, stride 1, part size 1, end -1, axis 0. The
  body outputs meant are those of the body function, which from position 1 on are the
  body's own outputs after scalar handling.
\<close>

theorem C7_general_outputs:
  assumes "returned_loop (loop node) = Some l"
    and "k = length (get_ng_inputs node) - 2"
    and "m = length (get_ng_outputs (body node)) - (k + 1)"
  shows "\<exists>bo ps. body_function l = Some (bo, ps)
     \<and> 2 \<le> length (get_ng_inputs node)
     \<and> length bo = k + 1 + m
     \<and> length (get_ng_outputs (body node)) = k + 1 + m
     \<and> (\<forall>i. 1 \<le> i \<and> i < k + 1 + m \<longrightarrow>
            bo ! i = scalar_handling k (get_ng_outputs (body node)) ! i)
     \<and> returned_outputs (loop node) = Some (map Loop_Port [0 ..< k + m])
     \<and> length (output_descriptions l) = k + m
     \<and> (\<forall>i<k. output_descriptions l ! i = Body_Output (bo ! (i + 1)) (-1))
     \<and> (\<forall>j<m. output_descriptions l ! (k + j) = Concat_Output (bo ! (k + 1 + j)) 0 1 1 (-1) 0)"
  using assms(1)
proof (rule returned_loop_cases)
  fix in0 in1 deps tc w outs'
  assume h: "get_ng_inputs node = in0 # in1 # deps"
    "resolve_termination_cond (in0 # in1 # deps) = Inr (Run_Loop tc)"
    "rewrite_condition (scalar_handling (length deps) (get_ng_outputs (body node)))
       = (w, Inr outs')"
    "length deps + 2 \<le> length (get_ng_parameters (body node))"
    "length deps + 1 \<le> length (get_ng_outputs (body node))"
  have k: "k = length deps"
    using assms(2) h(1) by simp
  have len: "length outs' = length (get_ng_outputs (body node))"
    using rewrite_condition_length [OF h(3)] by (simp add: length_scalar_handling)
  have n: "length (get_ng_outputs (body node)) = k + 1 + m"
    using assms(3) h(5) k by simp
  have nth: "outs' ! i = scalar_handling k (get_ng_outputs (body node)) ! i" if "1 \<le> i" for i
    using rewrite_condition_nth [OF h(3) that] k by simp
  have l: "l = \<lparr>trip_count_input = (if is_null in0 then Constant i64 [1] [-1] else in0),
                   execution_condition_input = tc,
                   special_body_ports = (0, 0),
                   body_function =
                     Some (outs', get_ng_parameters (body node) ! 0
                                    # drop 2 (get_ng_parameters (body node))),
                   merged_inputs =
                     zip (take (length deps) (drop 2 (get_ng_parameters (body node))))
                         (zip deps (take (length deps) (drop 1 outs'))),
                   output_descriptions =
                     map (\<lambda>v. Body_Output v (-1)) (take (length deps) (drop 1 outs'))
                     @ map (\<lambda>v. Concat_Output v 0 1 1 (-1) 0)
                         (drop (length deps + 1) outs')\<rparr>"
    using assms(1) unfolding loop_general [OF h] by (simp add: returned_loop_def)
  have ro: "returned_outputs (loop node) = Some (map Loop_Port [0 ..< k + m])"
    unfolding loop_general [OF h] using len n by (simp add: returned_outputs_def)
  have od_len: "length (output_descriptions l) = k + m"
    using len n k by (simp add: l)
  have od_carried: "output_descriptions l ! i = Body_Output (outs' ! (i + 1)) (-1)" if "i < k" for i
    using that len n k by (simp add: l nth_append)
  have od_scan: "output_descriptions l ! (k + j) = Concat_Output (outs' ! (k + 1 + j)) 0 1 1 (-1) 0"
    if "j < m" for j
    using that len n k by (simp add: l nth_append)
  show ?thesis
    using h(1) len n nth ro od_len od_carried od_scan
    by (intro exI [of _ outs'] exI [of _ "get_ng_parameters (body node) ! 0
                                    # drop 2 (get_ng_parameters (body node))"])
       (simp add: l)
qed

theorem C7_general_outputs_witness:
  "returned_outputs (loop example_node) = Some [Loop_Port 0, Loop_Port 1]
   \<and> map_option output_descriptions (returned_loop (loop example_node)) =
       Some [Body_Output (Op ''Add'' [Parameter sum_param, Constant f32 [] [1]] f32 (Some [])) (-1),
             Concat_Output
               (Unsqueeze (Op ''Convert'' [Parameter iter_param] f32 (Some []))
                  (Constant i64 [1] [0]) (Some [Some 1]))
               0 1 1 (-1) 0]"
proof -
  obtain l where l: "returned_loop (loop example_node) = Some l"
    using example_node_returned_loop by auto
  have k: "(1::nat) = length (get_ng_inputs example_node) - 2"
    by (simp add: example_node_def)
  have m: "(1::nat) = length (get_ng_outputs (body example_node)) - (1 + 1)"
    by (simp add: example_node_def example_body_def)
  from C7_general_outputs [OF l k m] obtain bo ps where
    "returned_outputs (loop example_node) = Some (map Loop_Port [0 ..< 1 + 1])"
    by blast
  then show ?thesis
    by (simp add: example_node_loop returned_loop_def upt_rec)
qed

subsection \<open>The parameters of the body function\<close>

text \<open>
  C1. Whenever \<open>loop\<close> returns a loop operator, the parameter list of its body function
  is the body's parameters from position 2 on, with the body's parameter at position 0
  (the iteration number, by the comment at line 199) put in front; the body has at
  least two parameters then, and the special body ports of the operator are \<open>{0, 0}\<close>.
\<close>

theorem C1_body_params:
  assumes "returned_loop (loop node) = Some l"
  shows "returned_body_params (loop node)
           = Some (get_ng_parameters (body node) ! 0 # drop 2 (get_ng_parameters (body node)))
       \<and> 2 \<le> length (get_ng_parameters (body node))
       \<and> special_body_ports l = (0, 0)"
  using assms
proof (rule returned_loop_cases)
  fix in0 in1 deps tc w outs'
  assume h: "get_ng_inputs node = in0 # in1 # deps"
    "resolve_termination_cond (in0 # in1 # deps) = Inr (Run_Loop tc)"
    "rewrite_condition (scalar_handling (length deps) (get_ng_outputs (body node)))
       = (w, Inr outs')"
    "length deps + 2 \<le> length (get_ng_parameters (body node))"
    "length deps + 1 \<le> length (get_ng_outputs (body node))"
  show ?thesis
    using h(4) assms unfolding loop_general [OF h]
    by (auto simp add: returned_body_params_def returned_loop_def)
qed

theorem C1_body_params_witness:
  "returned_body_params (loop example_node) = Some [iter_param, sum_param]"
proof -
  obtain l where l: "returned_loop (loop example_node) = Some l"
    using example_node_returned_loop by auto
  show ?thesis
    using C1_body_params [OF l] by (simp add: example_node_def example_body_def)
qed

theorem C1_condition_param_counterexample:
  "returned_body_params (loop example_node) = Some [iter_param, sum_param]
   \<and> get_ng_parameters (body example_node) ! 1 # drop 2 (get_ng_parameters (body example_node))
       = [cond_param, sum_param]
   \<and> returned_body_params (loop example_node)
       \<noteq> Some (get_ng_parameters (body example_node) ! 1
                 # drop 2 (get_ng_parameters (body example_node)))"
  by (simp add: example_node_loop returned_body_params_def returned_loop_def)
     (simp add: example_node_def example_body_def iter_param_def cond_param_def)


subsection \<open>The order of the checks and the accesses\<close>

lemma is_termination_condition_always_true_error:
  "is_termination_condition_always_true c = Inl e \<Longrightarrow> e = Out_Of_Range"
  by (cases c)
     (auto simp add: vector_at_def split: node.splits if_splits sum.splits)

lemma rewrite_condition_error:
  "rewrite_condition outs = (w, Inl e) \<Longrightarrow> e = Out_Of_Range"
  by (auto simp add: rewrite_condition_unfold vector_at_def
      split: sum.splits if_splits dest: is_termination_condition_always_true_error)

lemma rewrite_condition_Inl:
  assumes "outs \<noteq> []" and "is_termination_condition_always_true (outs ! 0) = Inl e"
  shows "rewrite_condition outs = ([], Inl Out_Of_Range)"
  using assms is_termination_condition_always_true_error [OF assms(2)]
  by (simp add: rewrite_condition_unfold vector_at_def)

lemma rewrite_condition_Inr:
  assumes "outs \<noteq> []" and "is_termination_condition_always_true (outs ! 0) = Inr b"
  shows "\<exists>outs'. rewrite_condition outs = (if b then [] else [no_identity_warning], Inr outs')
                \<and> length outs' = length outs"
  using assms by (simp add: rewrite_condition_unfold vector_at_def)

lemma scalar_handling_nth_0: "outs \<noteq> [] \<Longrightarrow> scalar_handling k outs ! 0 = outs ! 0"
  by (simp add: nth_scalar_handling)

lemma scalar_handling_Nil_iff: "scalar_handling k outs = [] \<longleftrightarrow> outs = []"
  using length_scalar_handling [of k outs] by (metis length_0_conv)

lemma resolve_trip_count_Cons:
  "resolve_trip_count (in0 # ins) = Inr (if is_null in0 then Constant i64 [1] [-1] else in0)"
  by (simp add: resolve_trip_count_def vector_at_def)

text \<open>
  C2. In the general case the two checks of lines 172-187 run only after \<open>at(0)\<close> and
  the pattern check of the condition output, with the warning that it logs. A body
  without outputs, and a body whose pattern check throws, end in \<open>std::out_of_range\<close>
  with an empty log, whatever the numbers of parameters and outputs are. Otherwise the
  log is empty for the identity pattern and holds the warning for any other condition
  output, also when a check then fails; the result is the validation failure for the
  parameters when they are fewer than \<open>k + 2\<close>, otherwise the validation failure for
  the outputs when they are fewer than \<open>k + 1\<close>, and otherwise \<open>loop\<close> returns a loop
  operator. No unchecked access leaves its vector: the result is never
  \<open>Undefined_Behaviour\<close>, and the loop of lines 146-155 with its unchecked
  \<open>body_outputs[i]\<close> always runs to its end.
\<close>

theorem C2_validation_order:
  assumes "get_ng_inputs node = in0 # in1 # deps"
    and "resolve_termination_cond (in0 # in1 # deps) = Inr (Run_Loop tc)"
  shows "snd (loop node) \<noteq> Inl Undefined_Behaviour
    \<and> scalar_handling_loop (length deps + 1) (get_ng_outputs (body node))
        = Inr (scalar_handling (length deps) (get_ng_outputs (body node)))
    \<and> (get_ng_outputs (body node) = [] \<longrightarrow> loop node = ([], Inl Out_Of_Range))
    \<and> (get_ng_outputs (body node) \<noteq> []
        \<and> is_termination_condition_always_true (get_ng_outputs (body node) ! 0) = Inl e
       \<longrightarrow> loop node = ([], Inl Out_Of_Range))
    \<and> (get_ng_outputs (body node) \<noteq> []
        \<and> is_termination_condition_always_true (get_ng_outputs (body node) ! 0) = Inr b
       \<longrightarrow>
         fst (loop node) = (if b then [] else [no_identity_warning])
       \<and> (length (get_ng_parameters (body node)) < length deps + 2 \<longrightarrow>
            snd (loop node) = Inl (Validation_Failure Body_Inputs_Size
                                     (length (get_ng_parameters (body node))) (length deps + 2)))
       \<and> (length deps + 2 \<le> length (get_ng_parameters (body node))
          \<and> length (get_ng_outputs (body node)) < length deps + 1 \<longrightarrow>
            snd (loop node) = Inl (Validation_Failure Body_Outputs_Size
                                     (length (get_ng_outputs (body node))) (length deps + 1)))
       \<and> (length deps + 2 \<le> length (get_ng_parameters (body node))
          \<and> length deps + 1 \<le> length (get_ng_outputs (body node)) \<longrightarrow>
            (\<exists>l. returned_loop (loop node) = Some l)))"
proof -
  let ?outs = "get_ng_outputs (body node)"
  let ?ps = "get_ng_parameters (body node)"
  let ?sh = "scalar_handling (length deps) ?outs"
  obtain trip where t: "resolve_trip_count (in0 # in1 # deps) = Inr trip"
    by (simp add: resolve_trip_count_Cons)
  have unfold: "loop node =
      (case rewrite_condition ?sh of
         (warnings, Inl e) \<Rightarrow> (warnings, Inl e)
       | (warnings, Inr body_outputs') \<Rightarrow>
           (case check_body_signature (length deps) ?ps body_outputs' of
              Inl e \<Rightarrow> (warnings, Inl e)
            | Inr _ \<Rightarrow>
                (warnings, build_loop trip tc deps ?ps body_outputs')))"
    by (simp add: loop_unfold Let_def assms t)
  have no_ub: "snd (loop node) \<noteq> Inl Undefined_Behaviour"
  proof (cases "rewrite_condition ?sh")
    case (Pair w res)
    show ?thesis
    proof (cases res)
      case (Inl e)
      with Pair rewrite_condition_error have "e = Out_Of_Range" by blast
      with Pair Inl show ?thesis by (simp add: unfold)
    next
      case (Inr outs')
      have len: "length outs' = length ?outs"
        using rewrite_condition_length Pair Inr by (fastforce simp add: length_scalar_handling)
      show ?thesis
        using Pair Inr len
        by (auto simp add: unfold check_body_signature_def build_loop_eq not_le)
    qed
  qed
  have empty: "loop node = ([], Inl Out_Of_Range)" if "?outs = []"
    using that by (simp add: unfold scalar_handling_def rewrite_condition_unfold vector_at_def)
  have throws: "loop node = ([], Inl Out_Of_Range)"
    if ne: "?outs \<noteq> []" and th: "is_termination_condition_always_true (?outs ! 0) = Inl e"
  proof -
    have "?sh \<noteq> []" using ne by (simp add: scalar_handling_Nil_iff)
    moreover have "is_termination_condition_always_true (?sh ! 0) = Inl e"
      using th ne by (simp add: scalar_handling_nth_0)
    ultimately have "rewrite_condition ?sh = ([], Inl Out_Of_Range)"
      by (rule rewrite_condition_Inl)
    then show ?thesis by (simp add: unfold)
  qed
  have rest: "fst (loop node) = (if b then [] else [no_identity_warning])
       \<and> (length ?ps < length deps + 2 \<longrightarrow>
            snd (loop node) = Inl (Validation_Failure Body_Inputs_Size (length ?ps) (length deps + 2)))
       \<and> (length deps + 2 \<le> length ?ps \<and> length ?outs < length deps + 1 \<longrightarrow>
            snd (loop node) = Inl (Validation_Failure Body_Outputs_Size (length ?outs) (length deps + 1)))
       \<and> (length deps + 2 \<le> length ?ps \<and> length deps + 1 \<le> length ?outs \<longrightarrow>
            (\<exists>l. returned_loop (loop node) = Some l))"
    if ne: "?outs \<noteq> []" and ok: "is_termination_condition_always_true (?outs ! 0) = Inr b"
  proof -
    have "?sh \<noteq> []" using ne by (simp add: scalar_handling_Nil_iff)
    moreover have "is_termination_condition_always_true (?sh ! 0) = Inr b"
      using ok ne by (simp add: scalar_handling_nth_0)
    ultimately obtain outs' where
      rc: "rewrite_condition ?sh = (if b then [] else [no_identity_warning], Inr outs')"
      and "length outs' = length ?sh"
      using rewrite_condition_Inr by blast
    then have len: "length outs' = length ?outs"
      by (simp add: length_scalar_handling)
    show ?thesis
      using len
      by (auto simp add: unfold rc check_body_signature_def build_loop_eq returned_loop_def)
  qed
  show ?thesis
    using no_ub empty throws rest scalar_handling_loop_eq by blast
qed

theorem C2_validation_order_witness:
  "loop short_body_node
     = ([no_identity_warning], Inl (Validation_Failure Body_Outputs_Size 1 2))
   \<and> loop throwing_condition_node = ([], Inl Out_Of_Range)
   \<and> check_body_signature 1 (get_ng_parameters (body throwing_condition_node))
        (get_ng_outputs (body throwing_condition_node))
       = Inl (Validation_Failure Body_Inputs_Size 0 3)"
proof -
  have r: "resolve_termination_cond (NullNode # NullNode # [Constant f32 [] [0]])
             = Inr (Run_Loop (Constant boolean [1] [1]))"
    by (simp add: resolve_termination_cond_def vector_at_def const_true_def)
  have i1: "get_ng_inputs short_body_node = NullNode # NullNode # [Constant f32 [] [0]]"
    by (simp add: short_body_node_def)
  have i2: "get_ng_inputs throwing_condition_node = NullNode # NullNode # [Constant f32 [] [0]]"
    by (simp add: throwing_condition_node_def)
  have c1: "is_termination_condition_always_true (get_ng_outputs (body short_body_node) ! 0)
              = Inr False"
    by (simp add: short_body_node_def)
  have c2: "is_termination_condition_always_true
              (get_ng_outputs (body throwing_condition_node) ! 0) = Inl Out_Of_Range"
    by (simp add: throwing_condition_node_def vector_at_def cast_vector_bool_def)
  have a: "loop short_body_node
             = ([no_identity_warning], Inl (Validation_Failure Body_Outputs_Size 1 2))"
    using C2_validation_order [OF i1 r, of Out_Of_Range False] c1
    by (cases "loop short_body_node") (simp add: short_body_node_def)
  have b: "loop throwing_condition_node = ([], Inl Out_Of_Range)"
    using C2_validation_order [OF i2 r, of Out_Of_Range False] c2
    by (simp add: throwing_condition_node_def)
  have c: "check_body_signature 1 (get_ng_parameters (body throwing_condition_node))
             (get_ng_outputs (body throwing_condition_node))
           = Inl (Validation_Failure Body_Inputs_Size 0 3)"
    by (simp add: check_body_signature_def throwing_condition_node_def)
  show ?thesis
    using a b c by blast
qed

theorem C2_no_outputs_counterexample:
  "snd (loop no_outputs_node) = Inl Out_Of_Range
   \<and> length (get_ng_outputs (body no_outputs_node))
       < length (drop 2 (get_ng_inputs no_outputs_node)) + 1
   \<and> resolve_termination_cond (get_ng_inputs no_outputs_node)
       = Inr (Run_Loop (Constant boolean [1] [1]))"
  by (simp add: no_outputs_node_def loop_unfold Let_def resolve_trip_count_def
      resolve_termination_cond_def vector_at_def scalar_handling_def rewrite_condition_unfold
      const_true_def)

subsection \<open>The rewrite of the condition output\<close>

lemma always_true_pattern:
  "is_termination_condition_always_true (LogicalOr a (Constant boolean sh (0 # vs)) ps)
     = Inr True"
  by (simp add: vector_at_def cast_vector_bool_def)

lemma always_true_empty_constant:
  "is_termination_condition_always_true (LogicalOr a (Constant boolean sh []) ps)
     = Inl Out_Of_Range"
  by (simp add: vector_at_def cast_vector_bool_def)

lemma always_true_otherwise:
  assumes "\<forall>a sh vs ps. c \<noteq> LogicalOr a (Constant boolean sh (0 # vs)) ps"
    and "\<forall>a sh ps. c \<noteq> LogicalOr a (Constant boolean sh []) ps"
  shows "is_termination_condition_always_true c = Inr False"
proof (cases c)
  case (LogicalOr a b ps)
  show ?thesis
  proof (cases b)
    case (Constant t sh vs)
    show ?thesis
    proof (cases "t = boolean")
      case False
      then show ?thesis by (simp add: LogicalOr Constant)
    next
      case True
      show ?thesis
      proof (cases vs)
        case Nil
        with assms(2) LogicalOr Constant True show ?thesis by simp
      next
        case (Cons v vs')
        with assms(1) LogicalOr Constant True have "v \<noteq> 0" by auto
        then show ?thesis
          by (simp add: LogicalOr Constant True Cons vector_at_def cast_vector_bool_def)
      qed
    qed
  qed (simp_all add: LogicalOr)
qed simp_all

text \<open>
  C5. When the condition output of the body (position 0, which the scalar handling never
  touches) is a logical OR whose second operand is a boolean constant with element 0
  false, lines 157-170 put a new constant \<open>true\<close> (boolean, shape [1]) at position 0
  and log nothing. When the second operand is a boolean constant without elements,
  \<open>at(0)\<close> throws \<open>std::out_of_range\<close>. For every other condition output the body
  outputs stay as they are and the warning is logged.
\<close>

theorem C5_condition_rewrite:
  "rewrite_condition (LogicalOr a (Constant boolean sh (0 # vs)) ps # rest)
     = ([], Inr (Constant boolean [1] [1] # rest))
   \<and> rewrite_condition (LogicalOr a (Constant boolean sh []) ps # rest)
       = ([], Inl Out_Of_Range)
   \<and> ((\<forall>a sh vs ps. c \<noteq> LogicalOr a (Constant boolean sh (0 # vs)) ps)
        \<and> (\<forall>a sh ps. c \<noteq> LogicalOr a (Constant boolean sh []) ps) \<longrightarrow>
       rewrite_condition (c # rest) = ([no_identity_warning], Inr (c # rest)))
   \<and> scalar_handling k (c # rest) ! 0 = c"
proof (intro conjI impI)
  show "rewrite_condition (LogicalOr a (Constant boolean sh (0 # vs)) ps # rest)
          = ([], Inr (Constant boolean [1] [1] # rest))"
    by (simp add: rewrite_condition_unfold vector_at_def always_true_pattern const_true_def
        del: is_termination_condition_always_true.simps)
next
  show "rewrite_condition (LogicalOr a (Constant boolean sh []) ps # rest)
          = ([], Inl Out_Of_Range)"
    by (simp add: rewrite_condition_unfold vector_at_def always_true_empty_constant
        del: is_termination_condition_always_true.simps)
next
  assume "(\<forall>a sh vs ps. c \<noteq> LogicalOr a (Constant boolean sh (0 # vs)) ps)
        \<and> (\<forall>a sh ps. c \<noteq> LogicalOr a (Constant boolean sh []) ps)"
  then have "is_termination_condition_always_true c = Inr False"
    using always_true_otherwise by blast
  then show "rewrite_condition (c # rest) = ([no_identity_warning], Inr (c # rest))"
    by (simp add: rewrite_condition_unfold vector_at_def)
next
  show "scalar_handling k (c # rest) ! 0 = c"
    by (simp add: nth_scalar_handling)
qed

theorem C5_condition_rewrite_witness:
  "rewrite_condition (get_ng_outputs example_body)
     = ([], Inr (Constant boolean [1] [1] # tl (get_ng_outputs example_body)))
   \<and> rewrite_condition [Parameter cond_param] = ([no_identity_warning], Inr [Parameter cond_param])
   \<and> rewrite_condition [LogicalOr (Parameter cond_param) (Constant boolean [] [1]) (Some [])]
       = ([no_identity_warning],
          Inr [LogicalOr (Parameter cond_param) (Constant boolean [] [1]) (Some [])])"
  using C5_condition_rewrite [of "Parameter cond_param" "[]" "[]" "Some []"
          "tl (get_ng_outputs example_body)" "Parameter cond_param" 0]
        C5_condition_rewrite [of "Parameter cond_param" "[]" "[]" "Some []" "[]"
          "Parameter cond_param" 0]
        C5_condition_rewrite [of "Parameter cond_param" "[]" "[]" "Some []" "[]"
          "LogicalOr (Parameter cond_param) (Constant boolean [] [1]) (Some [])" 0]
  by (simp add: example_body_def)

theorem C5_empty_constant_counterexample:
  "rewrite_condition (get_ng_outputs (body empty_constant_node)) = ([], Inl Out_Of_Range)
   \<and> loop empty_constant_node = ([], Inl Out_Of_Range)"
  by (simp add: empty_constant_node_def loop_unfold Let_def resolve_trip_count_def
      resolve_termination_cond_def vector_at_def scalar_handling_def rewrite_condition_unfold
      const_true_def cast_vector_bool_def)

end
